theory Spec2Isabelle
  imports Main
begin

section \<open>The worktree script: source text\<close>

text \<open>
  The file \<^verbatim>\<open>src/utils/create-worktree.sh\<close>, character for character, one string per line.
  The file has sixteen lines and ends after \<^verbatim>\<open>return 1\<close> of line 16, with no newline
  and no closing \<^verbatim>\<open>fi\<close>. The name between the braces of line 7 is written in Hangul;
  it is given here as its twelve UTF-8 bytes.
\<close>

definition hangul_name :: string where
  "hangul_name =
     [CHR 0xED, CHR 0x8F, CHR 0xB4, CHR 0xEB, CHR 0x8D, CHR 0x94,
      CHR 0xEC, CHR 0x9D, CHR 0xB4, CHR 0xEB, CHR 0xA6, CHR 0x84]"

definition script_lines :: "string list" where
  \<open>script_lines =
    [''#!/bin/bash'',
     ''if [ $# -eq 0]; then'',
     ''   echo "Error: Worktree name needed!"'',
     ''   return 1'',
     ''fi'',
     ''ARGUMENT=$1'',
     ''WORKTREE_PATH="../${'' @ hangul_name @ ''}$ARGUMENT"'',
     ''# create worktree, and if successful, change directory'',
     ''if git worktree add "$WORKTREE_PATH"; then'',
     ''   echo "Worktree added successfully: $WORKTREE_PATH"'',
     ''   cd "WORKTREE_PATH" || return 1'',
     ''   echo "Directory change succeeded: $(pwd)"'',
     ''   claude'',
     ''else'',
     ''   echo "Worktree creation failed"'',
     ''   return 1'']\<close>

fun join_lines :: "string list \<Rightarrow> string" where
  "join_lines [] = []"
| "join_lines [l] = l"
| "join_lines (l # ls) = l @ CHR 0x0A # join_lines ls"

definition script_text :: string where
  "script_text = join_lines script_lines"

section \<open>Shell syntax\<close>

text \<open>
  Words as the shell keeps them after tokenising: a word is a sequence of pieces, each
  either outside quotes or one double-quoted stretch. Expansions stay unexpanded until
  the command that holds them runs.
\<close>

datatype atom =
    Text string       \<comment> \<open>literal characters\<close>
  | Param string      \<comment> \<open>\<^verbatim>\<open>$name\<close> or \<^verbatim>\<open>${name}\<close>, the text between the braces kept as written\<close>
  | Pos nat           \<comment> \<open>\<^verbatim>\<open>$1\<close> ... \<^verbatim>\<open>$9\<close>, \<^verbatim>\<open>$0\<close>\<close>
  | Count             \<comment> \<open>\<^verbatim>\<open>$#\<close>\<close>
  | Sub string        \<comment> \<open>\<^verbatim>\<open>$(command)\<close>, the command text kept as written\<close>
  | Special char      \<comment> \<open>another special parameter, outside the modelled fragment\<close>

datatype piece = Bare atom | Quoted "atom list"

type_synonym word = "piece list"

datatype token = TWord word | TSemi | TNewline | TOrOr

subsection \<open>Tokenising\<close>

definition newline :: char where "newline = CHR 0x0A"
definition tab :: char where "tab = CHR 0x09"
definition dquote :: char where "dquote = CHR 0x22"

definition is_blank :: "char \<Rightarrow> bool" where
  "is_blank c = (c = CHR '' '' \<or> c = tab)"

definition is_meta :: "char \<Rightarrow> bool" where
  "is_meta c = (is_blank c \<or> c = newline \<or> c \<in> set ''|&;()<>'')"

definition is_digit :: "char \<Rightarrow> bool" where
  "is_digit c = (c \<in> set ''0123456789'')"

definition is_name_start :: "char \<Rightarrow> bool" where
  "is_name_start c =
     (c \<in> set ''abcdefghijklmnopqrstuvwxyzABCDEFGHIJKLMNOPQRSTUVWXYZ_'')"

definition is_name_char :: "char \<Rightarrow> bool" where
  "is_name_char c = (is_name_start c \<or> is_digit c)"

definition digit_of :: "char \<Rightarrow> nat" where
  "digit_of c = length (takeWhile (\<lambda>d. d \<noteq> c) ''0123456789'')"

text \<open>
  \<open>dollar r\<close> reads one expansion from the text \<open>r\<close> that follows a \<^verbatim>\<open>$\<close> and returns it
  with the number of characters it took. A \<^verbatim>\<open>$\<close> followed by nothing it can start is a
  literal dollar sign. An opening brace or parenthesis with no closing one is \<open>None\<close>.
\<close>

fun dollar :: "string \<Rightarrow> (atom \<times> nat) option" where
  "dollar [] = Some (Text ''$'', 0)"
| "dollar (c # r) =
     (if c = CHR ''#'' then Some (Count, 1)
      else if is_digit c then Some (Pos (digit_of c), 1)
      else if c = CHR ''{'' then
        (let n = takeWhile (\<lambda>x. x \<noteq> CHR ''}'') r in
         if length n < length r then Some (Param n, length n + 2) else None)
      else if c = CHR ''('' then
        (let b = takeWhile (\<lambda>x. x \<noteq> CHR '')'') r in
         if length b < length r then Some (Sub b, length b + 2) else None)
      else if is_name_start c then
        (let n = takeWhile is_name_char (c # r) in Some (Param n, length n))
      else if c \<in> set ''?!$@*-'' then Some (Special c, 1)
      else Some (Text ''$'', 0))"

text \<open>
  \<open>in_dquotes r\<close> reads the inside of a double-quoted stretch, \<open>r\<close> being the text after
  the opening quote, up to and including the closing quote. Backslash and backquote
  inside double quotes are outside the modelled fragment (\<open>None\<close>), as is a missing
  closing quote.
\<close>

fun in_dquotes :: "string \<Rightarrow> (atom list \<times> nat) option" where
  "in_dquotes [] = None"
| "in_dquotes (c # r) =
     (if c = dquote then Some ([], 1)
      else if c = CHR 0x5C \<or> c = CHR 0x60 then None
      else if c = CHR ''$'' then
        (case dollar r of None \<Rightarrow> None
         | Some (a, n) \<Rightarrow>
            (case in_dquotes (drop n r) of None \<Rightarrow> None
             | Some (as, m) \<Rightarrow> Some (a # as, 1 + n + m)))
      else
        (case in_dquotes r of None \<Rightarrow> None
         | Some (as, m) \<Rightarrow> Some (Text [c] # as, 1 + m)))"

text \<open>
  \<open>word_pieces r\<close> reads a word from the start of \<open>r\<close>, up to the next metacharacter
  outside quotes. Single quotes, backslash and backquote are outside the fragment.
\<close>

fun word_pieces :: "string \<Rightarrow> (piece list \<times> nat) option" where
  "word_pieces [] = Some ([], 0)"
| "word_pieces (c # r) =
     (if is_meta c then Some ([], 0)
      else if c = CHR 0x27 \<or> c = CHR 0x5C \<or> c = CHR 0x60 then None
      else if c = dquote then
        (case in_dquotes r of None \<Rightarrow> None
         | Some (as, n) \<Rightarrow>
            (case word_pieces (drop n r) of None \<Rightarrow> None
             | Some (ps, m) \<Rightarrow> Some (Quoted as # ps, 1 + n + m)))
      else if c = CHR ''$'' then
        (case dollar r of None \<Rightarrow> None
         | Some (a, n) \<Rightarrow>
            (case word_pieces (drop n r) of None \<Rightarrow> None
             | Some (ps, m) \<Rightarrow> Some (Bare a # ps, 1 + n + m)))
      else
        (case word_pieces r of None \<Rightarrow> None
         | Some (ps, m) \<Rightarrow> Some (Bare (Text [c]) # ps, 1 + m)))"

text \<open>Neighbouring literal characters are one stretch of text.\<close>

fun merge_atoms :: "atom list \<Rightarrow> atom list" where
  "merge_atoms (Text a # as) =
     (case merge_atoms as of
        Text b # bs \<Rightarrow> Text (a @ b) # bs
      | bs \<Rightarrow> Text a # bs)"
| "merge_atoms (a # as) = a # merge_atoms as"
| "merge_atoms [] = []"

fun merge_pieces :: "piece list \<Rightarrow> piece list" where
  "merge_pieces (Bare (Text a) # ps) =
     (case merge_pieces ps of
        Bare (Text b) # qs \<Rightarrow> Bare (Text (a @ b)) # qs
      | qs \<Rightarrow> Bare (Text a) # qs)"
| "merge_pieces (Quoted as # ps) = Quoted (merge_atoms as) # merge_pieces ps"
| "merge_pieces (p # ps) = p # merge_pieces ps"
| "merge_pieces [] = []"

text \<open>
  \<open>tokens r\<close> splits the text into words and operators. A \<^verbatim>\<open>#\<close> where a word would
  start opens a comment that runs to the end of the line. A single \<^verbatim>\<open>|\<close> and the
  other operator characters are outside the fragment.
\<close>

fun tokens :: "string \<Rightarrow> token list option" where
  "tokens [] = Some []"
| "tokens (c # r) =
     (if is_blank c then tokens r
      else if c = newline then map_option ((#) TNewline) (tokens r)
      else if c = CHR '';'' then map_option ((#) TSemi) (tokens r)
      else if c = CHR ''|'' then
        (case r of
           d # r' \<Rightarrow> if d = CHR ''|'' then map_option ((#) TOrOr) (tokens r') else None
         | [] \<Rightarrow> None)
      else if c = CHR ''#'' then
        tokens (drop (length (takeWhile (\<lambda>x. x \<noteq> newline) r)) r)
      else if is_meta c then None
      else
        (case word_pieces (c # r) of None \<Rightarrow> None
         | Some (ps, n) \<Rightarrow>
             map_option ((#) (TWord (merge_pieces ps))) (tokens (drop (n - 1) r))))"

subsection \<open>Parsing\<close>

text \<open>
  The fragment of the grammar the script uses: simple commands, \<^verbatim>\<open>a || b\<close>, and
  \<^verbatim>\<open>if list; then list; [else list;] fi\<close>. A simple command keeps its words unexpanded.
\<close>

datatype cmd =
    Simple "word list"
  | OrElse cmd cmd
  | If "cmd list" "cmd list" "cmd list"

text \<open>
  The parser reads the tokens from left to right and keeps the commands that are still
  open on a stack, innermost first: an \<^verbatim>\<open>if\<close> whose condition, then-part or else-part is
  being read (with the parts read so far), or the left side of a \<^verbatim>\<open>||\<close>.
\<close>

datatype frame =
    InCond "cmd list"
  | InThen "cmd list" "cmd list"
  | InElse "cmd list" "cmd list" "cmd list"
  | OrRhs cmd

datatype syntax_error =
    UnexpectedEOF "frame list"   \<comment> \<open>the text ended inside the commands on the stack\<close>
  | UnexpectedToken token
  | OutsideFragment

record pstate =
  units :: "cmd list list"   \<comment> \<open>the complete top-level lines read so far\<close>
  line :: "cmd list"         \<comment> \<open>complete commands of the top-level line being read\<close>
  stack :: "frame list"
  cur :: "word list"         \<comment> \<open>words of the simple command being read\<close>
  closed :: bool             \<comment> \<open>the last token closed a compound command\<close>

definition pstate0 :: pstate where
  "pstate0 = \<lparr>units = [], line = [], stack = [], cur = [], closed = False\<rparr>"

text \<open>A complete command goes to the innermost open command, or to the current line.\<close>

fun emit :: "cmd \<Rightarrow> frame list \<Rightarrow> cmd list \<Rightarrow> frame list \<times> cmd list" where
  "emit c [] ln = ([], ln @ [c])"
| "emit c (OrRhs l # fs) ln = emit (OrElse l c) fs ln"
| "emit c (InCond cs # fs) ln = (InCond (cs @ [c]) # fs, ln)"
| "emit c (InThen k ts # fs) ln = (InThen k (ts @ [c]) # fs, ln)"
| "emit c (InElse k ts es # fs) ln = (InElse k ts (es @ [c]) # fs, ln)"

definition flush :: "pstate \<Rightarrow> pstate" where
  "flush p =
     (if cur p = [] then p
      else (case emit (Simple (cur p)) (stack p) (line p) of
              (fs, ln) \<Rightarrow> p\<lparr>stack := fs, line := ln, cur := []\<rparr>))"

definition other_reserved :: "string list" where
  "other_reserved =
     [''elif'', ''case'', ''esac'', ''for'', ''select'', ''while'', ''until'', ''do'',
      ''done'', ''in'', ''function'', ''time'', ''{'', ''}'', ''!'', ''[['', '']]'',
      ''coproc'']"

text \<open>
  A reserved word is one only where a command starts, that is when no word of a simple
  command has been read yet. \<^verbatim>\<open>[\<close> is not a reserved word but the name of a command,
  and nothing in the grammar pairs it with a \<^verbatim>\<open>]\<close>.
\<close>

definition keyword :: "string \<Rightarrow> pstate \<Rightarrow> syntax_error + pstate" where
  "keyword k p =
     (if k = ''if'' then Inr (p\<lparr>stack := InCond [] # stack p, closed := False\<rparr>)
      else if k = ''then'' then
        (case stack p of
           InCond cs # fs \<Rightarrow>
             if cs = [] then Inl (UnexpectedToken (TWord [Bare (Text k)]))
             else Inr (p\<lparr>stack := InThen cs [] # fs, closed := False\<rparr>)
         | _ \<Rightarrow> Inl (UnexpectedToken (TWord [Bare (Text k)])))
      else if k = ''else'' then
        (case stack p of
           InThen cs ts # fs \<Rightarrow>
             if ts = [] then Inl (UnexpectedToken (TWord [Bare (Text k)]))
             else Inr (p\<lparr>stack := InElse cs ts [] # fs, closed := False\<rparr>)
         | _ \<Rightarrow> Inl (UnexpectedToken (TWord [Bare (Text k)])))
      else if k = ''fi'' then
        (case stack p of
           InThen cs ts # fs \<Rightarrow>
             if ts = [] then Inl (UnexpectedToken (TWord [Bare (Text k)]))
             else (case emit (If cs ts []) fs (line p) of
                     (fs', ln) \<Rightarrow> Inr (p\<lparr>stack := fs', line := ln, closed := True\<rparr>))
         | InElse cs ts es # fs \<Rightarrow>
             if es = [] then Inl (UnexpectedToken (TWord [Bare (Text k)]))
             else (case emit (If cs ts es) fs (line p) of
                     (fs', ln) \<Rightarrow> Inr (p\<lparr>stack := fs', line := ln, closed := True\<rparr>))
         | _ \<Rightarrow> Inl (UnexpectedToken (TWord [Bare (Text k)])))
      else Inl OutsideFragment)"

fun parse_step :: "token \<Rightarrow> pstate \<Rightarrow> syntax_error + pstate" where
  "parse_step (TWord w) p =
     (case (cur p, w) of
        ([], [Bare (Text k)]) \<Rightarrow>
          if k \<in> set [''if'', ''then'', ''else'', ''fi''] \<or> k \<in> set other_reserved
          then keyword k p
          else Inr (p\<lparr>cur := [w], closed := False\<rparr>)
      | _ \<Rightarrow> Inr (p\<lparr>cur := cur p @ [w], closed := False\<rparr>))"
| "parse_step TSemi p =
     (if cur p = [] \<and> \<not> closed p then Inl (UnexpectedToken TSemi)
      else Inr ((flush p)\<lparr>closed := False\<rparr>))"
| "parse_step TNewline p =
     (let q = flush p in
      if stack q = [] then Inr (q\<lparr>units := units q @ (if line q = [] then [] else [line q]),
                                 line := [], closed := False\<rparr>)
      else Inr (q\<lparr>closed := False\<rparr>))"
| "parse_step TOrOr p =
     (if cur p = [] then
        (if closed p then Inl OutsideFragment else Inl (UnexpectedToken TOrOr))
      else
        (case stack p of
           OrRhs l # fs \<Rightarrow>
             Inr (p\<lparr>stack := OrRhs (OrElse l (Simple (cur p))) # fs, cur := []\<rparr>)
         | fs \<Rightarrow> Inr (p\<lparr>stack := OrRhs (Simple (cur p)) # fs, cur := []\<rparr>)))"

text \<open>
  At the end of the text a command that is still open is a syntax error (bash:
  \<^verbatim>\<open>syntax error: unexpected end of file\<close>). The lines read completely before it have
  already been handed over, since the shell reads and runs a script one line of
  commands at a time.
\<close>

definition finish :: "pstate \<Rightarrow> cmd list list \<times> syntax_error option" where
  "finish p =
     (let q = flush p in
      if stack q = [] then (units q @ (if line q = [] then [] else [line q]), None)
      else (units q, Some (UnexpectedEOF (stack q))))"

fun parse_from :: "pstate \<Rightarrow> token list \<Rightarrow> cmd list list \<times> syntax_error option" where
  "parse_from p [] = finish p"
| "parse_from p (t # ts) =
     (case parse_step t p of
        Inl e \<Rightarrow> (units p, Some e)
      | Inr q \<Rightarrow> parse_from q ts)"

definition parse_script :: "string \<Rightarrow> cmd list list \<times> syntax_error option" where
  "parse_script txt =
     (case tokens txt of
        None \<Rightarrow> ([], Some OutsideFragment)
      | Some ts \<Rightarrow> parse_from pstate0 ts)"

section \<open>Shell semantics\<close>

text \<open>
  The shell is bash, which line 1 of the script names; where versions differ the
  behaviour is that of bash 5.2. What a run does to the outside is a list of events, in
  order: a line written to standard output, a diagnostic of the shell on standard
  error, an external program started with its argument vector, and a change of
  directory attempted by \<^verbatim>\<open>cd\<close>.
\<close>

datatype diag =
    MissingBracket           \<comment> \<open>\<^verbatim>\<open>[: missing `]'\<close>\<close>
  | IntegerExpected          \<comment> \<open>\<^verbatim>\<open>[: integer expression expected\<close>\<close>
  | BadSubstitution          \<comment> \<open>\<^verbatim>\<open>bad substitution\<close>\<close>
  | ReturnOutside            \<comment> \<open>\<^verbatim>\<open>return: can only `return' from a function or sourced script\<close>\<close>
  | NumericRequired          \<comment> \<open>\<^verbatim>\<open>return: numeric argument required\<close>\<close>
  | CdFailed string          \<comment> \<open>\<^verbatim>\<open>cd: No such file or directory\<close> and the like\<close>
  | SyntaxError              \<comment> \<open>\<^verbatim>\<open>syntax error\<close> reported by the parser\<close>

datatype event = Out string | Diag diag | Run "string list" | Cd string

text \<open>
  The world outside the shell is a parameter. An external program returns an exit
  status and what it wrote to standard output; whether a directory can be entered is
  the world's answer too. Both may depend on everything that happened before.
\<close>

record world =
  program :: "event list \<Rightarrow> string list \<Rightarrow> nat \<times> string"
  chdir :: "event list \<Rightarrow> string \<Rightarrow> string \<Rightarrow> string option"

text \<open>
  The state of the shell that runs the script. \<open>sourced\<close> tells whether the file is read
  by \<^verbatim>\<open>source\<close> into a running shell or run as a program of its own; \<open>status\<close> is \<^verbatim>\<open>$?\<close>.
  The shell options are the defaults (no \<^verbatim>\<open>errexit\<close>, no \<^verbatim>\<open>nounset\<close>), the field
  separators are the default blank, tab and newline, and no alias or function hides a
  command name.
\<close>

record shell =
  vars :: "string \<rightharpoonup> string"
  params :: "string list"
  cwd :: string
  sourced :: bool
  status :: nat
  trace :: "event list"

definition say :: "event \<Rightarrow> shell \<Rightarrow> shell" where
  "say e sh = sh\<lparr>trace := trace sh @ [e]\<rparr>"

text \<open>
  How a command ends: the next command runs (\<open>Go\<close>); a \<^verbatim>\<open>return\<close> leaves the sourced
  file; an expansion error throws away the rest of the top-level line being run; or the
  command is outside what this model covers.
\<close>

datatype flow = Go | Returned | Discarded | Unmodelled

subsection \<open>Numbers\<close>

function dec :: "nat \<Rightarrow> string" where
  "dec n = (if n < 10 then [''0123456789'' ! n]
            else dec (n div 10) @ [''0123456789'' ! (n mod 10)])"
  by pat_completeness auto
termination
  by (relation "measure id") auto

declare dec.simps [simp del]

definition parse_digits :: "string \<Rightarrow> int option" where
  "parse_digits s =
     (if s \<noteq> [] \<and> list_all is_digit s
      then Some (foldl (\<lambda>a c. 10 * a + int (digit_of c)) 0 s) else None)"

definition parse_int :: "string \<Rightarrow> int option" where
  "parse_int s =
     (case s of
        [] \<Rightarrow> None
      | c # r \<Rightarrow>
          if c = CHR ''-'' then map_option uminus (parse_digits r)
          else if c = CHR ''+'' then parse_digits r
          else parse_digits s)"

subsection \<open>Expansion\<close>

datatype xerr = BadSubst | NoModel

definition valid_name :: "string \<Rightarrow> bool" where
  "valid_name n = (n \<noteq> [] \<and> is_name_start (hd n) \<and> list_all is_name_char n)"

definition is_high :: "char \<Rightarrow> bool" where
  "is_high c = ((128::nat) \<le> of_char c)"

definition positional :: "shell \<Rightarrow> nat \<Rightarrow> xerr + string" where
  "positional sh k =
     (if k = 0 then Inl NoModel
      else if k \<le> length (params sh) then Inr (params sh ! (k - 1))
      else Inr [])"

text \<open>
  A parameter name is an ASCII letter or underscore followed by ASCII letters, digits
  and underscores. An unset variable expands to the empty string. Between braces,
  bash takes the characters up to the first operator character as the name and reports
  \<^verbatim>\<open>bad substitution\<close> when they are not a name; the forms with an operator are outside
  the fragment.
\<close>

definition expand_param :: "shell \<Rightarrow> string \<Rightarrow> xerr + string" where
  "expand_param sh n =
     (if valid_name n then Inr (case vars sh n of None \<Rightarrow> [] | Some v \<Rightarrow> v)
      else if n \<noteq> [] \<and> list_all is_digit n then
        (case parse_digits n of None \<Rightarrow> Inl NoModel | Some k \<Rightarrow> positional sh (nat k))
      else if list_all (\<lambda>c. is_name_char c \<or> is_high c) n then Inl BadSubst
      else Inl NoModel)"

fun split_blanks :: "string \<Rightarrow> string \<Rightarrow> string list" where
  "split_blanks acc [] = (if acc = [] then [] else [acc])"
| "split_blanks acc (c # r) =
     (if is_blank c then (if acc = [] then [] else [acc]) @ split_blanks [] r
      else split_blanks (acc @ [c]) r)"

definition builtin_names :: "string list" where
  "builtin_names = [''['', ''echo'', ''cd'', ''pwd'', ''return'']"

definition other_builtins :: "string list" where
  "other_builtins =
     [''.'', '':'', ''source'', ''alias'', ''bg'', ''bind'', ''break'', ''builtin'',
      ''caller'', ''command'', ''compgen'', ''complete'', ''compopt'', ''continue'',
      ''declare'', ''dirs'', ''disown'', ''enable'', ''eval'', ''exec'', ''exit'',
      ''export'', ''false'', ''fc'', ''fg'', ''getopts'', ''hash'', ''help'', ''history'',
      ''jobs'', ''kill'', ''let'', ''local'', ''logout'', ''mapfile'', ''popd'', ''printf'',
      ''pushd'', ''read'', ''readarray'', ''readonly'', ''set'', ''shift'', ''shopt'',
      ''suspend'', ''test'', ''times'', ''trap'', ''true'', ''type'', ''typeset'',
      ''ulimit'', ''umask'', ''unalias'', ''unset'', ''wait'']"

definition strip_newlines :: "string \<Rightarrow> string" where
  "strip_newlines s = rev (dropWhile (\<lambda>c. c = newline) (rev s))"

text \<open>
  Command substitution runs the command and puts what it wrote to standard output,
  less the trailing newlines, into the word. Only a plain command of literal words is
  modelled: the builtin \<^verbatim>\<open>pwd\<close>, which writes the current directory, or an external
  program.
\<close>

definition expand_sub :: "world \<Rightarrow> string \<Rightarrow> shell \<Rightarrow> (xerr + string) \<times> shell" where
  "expand_sub w body sh =
     (if \<not> list_all (\<lambda>c. is_name_char c \<or> c \<in> set '' -./'') body then (Inl NoModel, sh)
      else
        (let ws = split_blanks [] body in
         if ws = [''pwd''] then (Inr (cwd sh), sh\<lparr>status := 0\<rparr>)
         else if ws = [] \<or> hd ws \<in> set builtin_names \<or> hd ws \<in> set other_builtins
         then (Inl NoModel, sh)
         else (case program w (trace sh) ws of
                 (st, out) \<Rightarrow> (Inr (strip_newlines out), (say (Run ws) sh)\<lparr>status := st\<rparr>))))"

fun expand_atom :: "world \<Rightarrow> atom \<Rightarrow> shell \<Rightarrow> (xerr + string) \<times> shell" where
  "expand_atom w (Text t) sh = (Inr t, sh)"
| "expand_atom w (Param n) sh = (expand_param sh n, sh)"
| "expand_atom w (Pos k) sh = (positional sh k, sh)"
| "expand_atom w Count sh = (Inr (dec (length (params sh))), sh)"
| "expand_atom w (Sub b) sh = expand_sub w b sh"
| "expand_atom w (Special c) sh = (Inl NoModel, sh)"

fun expand_atoms :: "world \<Rightarrow> atom list \<Rightarrow> shell \<Rightarrow> (xerr + string) \<times> shell" where
  "expand_atoms w [] sh = (Inr [], sh)"
| "expand_atoms w (a # as) sh =
     (case expand_atom w a sh of
        (Inl e, sh') \<Rightarrow> (Inl e, sh')
      | (Inr s, sh') \<Rightarrow>
          (case expand_atoms w as sh' of
             (Inl e, sh'') \<Rightarrow> (Inl e, sh'')
           | (Inr t, sh'') \<Rightarrow> (Inr (s @ t), sh'')))"

text \<open>
  Fields of a command word. Quoted text and literal text join the field being built; the
  result of an expansion outside quotes is split at blanks, tabs and newlines, and an
  empty one adds no field. Pathname, brace and tilde expansion are not modelled: literal
  text outside quotes that could start one is outside the fragment. A \<^verbatim>\<open>[\<close> with no
  \<^verbatim>\<open>]\<close> after it in the same word, and a \<^verbatim>\<open>]\<close> alone, are literal.
\<close>

type_synonym facc = "string list \<times> string option"

definition glue :: "string \<Rightarrow> facc \<Rightarrow> facc" where
  "glue s a = (fst a, Some ((case snd a of None \<Rightarrow> [] | Some f \<Rightarrow> f) @ s))"

fun split_into :: "string \<Rightarrow> facc \<Rightarrow> facc" where
  "split_into [] a = a"
| "split_into (c # r) a =
     (if is_blank c \<or> c = newline then
        split_into r (case snd a of None \<Rightarrow> a | Some f \<Rightarrow> (fst a @ [f], None))
      else split_into r (glue [c] a))"

definition close_fields :: "facc \<Rightarrow> string list" where
  "close_fields a = fst a @ (case snd a of None \<Rightarrow> [] | Some f \<Rightarrow> [f])"

definition may_glob :: "string \<Rightarrow> bool" where
  "may_glob t =
     (list_ex (\<lambda>c. c \<in> set ''*?~{'') t
      \<or> CHR '']'' \<in> set (dropWhile (\<lambda>c. c \<noteq> CHR ''['') t))"

fun expand_pieces :: "world \<Rightarrow> piece list \<Rightarrow> facc \<Rightarrow> shell \<Rightarrow> (xerr + facc) \<times> shell" where
  "expand_pieces w [] a sh = (Inr a, sh)"
| "expand_pieces w (Bare (Text t) # ps) a sh =
     (if may_glob t then (Inl NoModel, sh) else expand_pieces w ps (glue t a) sh)"
| "expand_pieces w (Bare x # ps) a sh =
     (case expand_atom w x sh of
        (Inl e, sh') \<Rightarrow> (Inl e, sh')
      | (Inr s, sh') \<Rightarrow> expand_pieces w ps (split_into s a) sh')"
| "expand_pieces w (Quoted xs # ps) a sh =
     (case expand_atoms w xs sh of
        (Inl e, sh') \<Rightarrow> (Inl e, sh')
      | (Inr s, sh') \<Rightarrow> expand_pieces w ps (glue s a) sh')"

fun expand_words :: "world \<Rightarrow> word list \<Rightarrow> shell \<Rightarrow> (xerr + string list) \<times> shell" where
  "expand_words w [] sh = (Inr [], sh)"
| "expand_words w (wd # wds) sh =
     (case expand_pieces w wd ([], None) sh of
        (Inl e, sh') \<Rightarrow> (Inl e, sh')
      | (Inr a, sh') \<Rightarrow>
          (case expand_words w wds sh' of
             (Inl e, sh'') \<Rightarrow> (Inl e, sh'')
           | (Inr fs, sh'') \<Rightarrow> (Inr (close_fields a @ fs), sh'')))"

text \<open>The value of an assignment is expanded without field splitting.\<close>

fun expand_value :: "world \<Rightarrow> piece list \<Rightarrow> shell \<Rightarrow> (xerr + string) \<times> shell" where
  "expand_value w [] sh = (Inr [], sh)"
| "expand_value w (p # ps) sh =
     (case (case p of Bare x \<Rightarrow> expand_atom w x sh | Quoted xs \<Rightarrow> expand_atoms w xs sh) of
        (Inl e, sh') \<Rightarrow> (Inl e, sh')
      | (Inr s, sh') \<Rightarrow>
          (case expand_value w ps sh' of
             (Inl e, sh'') \<Rightarrow> (Inl e, sh'')
           | (Inr t, sh'') \<Rightarrow> (Inr (s @ t), sh'')))"

text \<open>A word \<^verbatim>\<open>name=...\<close> at the start of a simple command is an assignment.\<close>

definition assignment :: "word \<Rightarrow> (string \<times> word) option" where
  "assignment wd =
     (case wd of
        Bare (Text t) # rest \<Rightarrow>
          (let n = takeWhile (\<lambda>c. c \<noteq> CHR ''='') t;
               v = drop (length n + 1) t
           in if length n < length t \<and> valid_name n
              then Some (n, if v = [] then rest else Bare (Text v) # rest)
              else None)
      | _ \<Rightarrow> None)"

subsection \<open>Builtin commands\<close>

text \<open>
  \<^verbatim>\<open>[\<close> is the command \<^verbatim>\<open>test\<close> under another name: its last argument has to be the word
  \<^verbatim>\<open>]\<close>, or it reports \<^verbatim>\<open>missing `]'\<close> and ends with status 2. Of the expressions, the empty
  one, the one-word one and \<^verbatim>\<open>a -eq b\<close> are modelled. The operands of \<^verbatim>\<open>-eq\<close> are integers of
  64 bits: a number outside that range is no integer expression.
\<close>

definition in_range :: "int \<Rightarrow> bool" where
  "in_range x = (- 9223372036854775808 \<le> x \<and> x < 9223372036854775808)"

definition test_expr :: "string list \<Rightarrow> shell \<Rightarrow> flow \<times> shell" where
  "test_expr xs sh =
     (case xs of
        [] \<Rightarrow> (Go, sh\<lparr>status := 1\<rparr>)
      | [s] \<Rightarrow> (Go, sh\<lparr>status := (if s = [] then 1 else 0)\<rparr>)
      | [a, opr, b] \<Rightarrow>
          if opr \<noteq> ''-eq'' \<or> list_ex is_blank (a @ b) then (Unmodelled, sh)
          else (case (parse_int a, parse_int b) of
                  (Some x, Some y) \<Rightarrow>
                    if in_range x \<and> in_range y
                    then (Go, sh\<lparr>status := (if x = y then 0 else 1)\<rparr>)
                    else (Go, say (Diag IntegerExpected) (sh\<lparr>status := 2\<rparr>))
                | _ \<Rightarrow> (Go, say (Diag IntegerExpected) (sh\<lparr>status := 2\<rparr>)))
      | _ \<Rightarrow> (Unmodelled, sh))"

definition bracket :: "string list \<Rightarrow> shell \<Rightarrow> flow \<times> shell" where
  "bracket xs sh =
     (if xs = [] \<or> last xs \<noteq> '']'' then (Go, say (Diag MissingBracket) (sh\<lparr>status := 2\<rparr>))
      else test_expr (butlast xs) sh)"

fun join_spaces :: "string list \<Rightarrow> string" where
  "join_spaces [] = []"
| "join_spaces [x] = x"
| "join_spaces (x # xs) = x @ CHR '' '' # join_spaces xs"

text \<open>\<^verbatim>\<open>echo\<close> writes its arguments on one line; its options are not modelled.\<close>

definition echo :: "string list \<Rightarrow> shell \<Rightarrow> flow \<times> shell" where
  "echo xs sh =
     (if xs \<noteq> [] \<and> take 1 (hd xs) = ''-'' then (Unmodelled, sh)
      else (Go, say (Out (join_spaces xs)) (sh\<lparr>status := 0\<rparr>)))"

text \<open>
  \<^verbatim>\<open>cd dir\<close> asks the world whether \<open>dir\<close> can be entered from the current directory. It
  ends with status 0 in the new directory, or with status 1 where it was.
\<close>

definition cd :: "world \<Rightarrow> string list \<Rightarrow> shell \<Rightarrow> flow \<times> shell" where
  "cd w xs sh =
     (case xs of
        [t] \<Rightarrow>
          if t = [] \<or> take 1 t = ''-'' then (Unmodelled, sh)
          else (case chdir w (trace sh) (cwd sh) t of
                  Some d \<Rightarrow>
                    (Go, (say (Cd t) sh)
                           \<lparr>vars := (vars sh)(''PWD'' \<mapsto> d, ''OLDPWD'' \<mapsto> cwd sh),
                            cwd := d, status := 0\<rparr>)
                | None \<Rightarrow> (Go, say (Diag (CdFailed t)) ((say (Cd t) sh)\<lparr>status := 1\<rparr>)))
      | _ \<Rightarrow> (Unmodelled, sh))"

definition pwd :: "string list \<Rightarrow> shell \<Rightarrow> flow \<times> shell" where
  "pwd xs sh =
     (if xs = [] then (Go, say (Out (cwd sh)) (sh\<lparr>status := 0\<rparr>)) else (Unmodelled, sh))"

text \<open>
  \<^verbatim>\<open>return n\<close> leaves a sourced file with status \<open>n\<close> modulo 256. A number that does not
  fit 64 bits is reported (\<^verbatim>\<open>numeric argument required\<close>) and the status is 2. In a script
  run as a program \<^verbatim>\<open>return\<close> is an error: bash 5.2 reports it, sets status 2 and goes on
  with the next command.
\<close>

definition return :: "string list \<Rightarrow> shell \<Rightarrow> flow \<times> shell" where
  "return xs sh =
     (case (case xs of
              [] \<Rightarrow> Some (int (status sh))
            | [a] \<Rightarrow> parse_digits a
            | _ \<Rightarrow> None) of
        None \<Rightarrow> (Unmodelled, sh)
      | Some x \<Rightarrow>
          (let big = (9223372036854775808 \<le> x);
               sh1 = (if big then say (Diag NumericRequired) sh else sh)
           in if sourced sh
              then (Returned, sh1\<lparr>status := (if big then 2 else nat (x mod 256))\<rparr>)
              else (Go, say (Diag ReturnOutside) (sh1\<lparr>status := 2\<rparr>))))"

text \<open>Any other name is a program looked up outside the shell.\<close>

definition external :: "world \<Rightarrow> string list \<Rightarrow> shell \<Rightarrow> flow \<times> shell" where
  "external w argv sh =
     (case program w (trace sh) argv of
        (st, out) \<Rightarrow> (Go, (say (Run argv) sh)\<lparr>status := st\<rparr>))"

definition dispatch :: "world \<Rightarrow> string list \<Rightarrow> shell \<Rightarrow> flow \<times> shell" where
  "dispatch w fs sh =
     (case fs of
        [] \<Rightarrow> (Go, sh\<lparr>status := 0\<rparr>)
      | c # xs \<Rightarrow>
          if c = ''['' then bracket xs sh
          else if c = ''echo'' then echo xs sh
          else if c = ''cd'' then cd w xs sh
          else if c = ''pwd'' then pwd xs sh
          else if c = ''return'' then return xs sh
          else if c \<in> set other_builtins then (Unmodelled, sh)
          else external w fs sh)"

subsection \<open>Commands\<close>

fun assign_all :: "world \<Rightarrow> (string \<times> word) list \<Rightarrow> shell \<Rightarrow> flow \<times> shell" where
  "assign_all w [] sh = (Go, sh)"
| "assign_all w ((n, v) # as) sh =
     (case expand_value w v sh of
        (Inl BadSubst, sh') \<Rightarrow> (Discarded, say (Diag BadSubstitution) (sh'\<lparr>status := 1\<rparr>))
      | (Inl NoModel, sh') \<Rightarrow> (Unmodelled, sh')
      | (Inr s, sh') \<Rightarrow> assign_all w as (sh'\<lparr>vars := (vars sh')(n \<mapsto> s)\<rparr>))"

text \<open>
  A simple command: the leading assignments, then the command words. With no command
  word the assignments change the shell's variables. An assignment in front of a
  command word is outside the fragment. An expansion that fails with
  \<^verbatim>\<open>bad substitution\<close> stops the command before anything of it is done.
\<close>

definition simple :: "world \<Rightarrow> word list \<Rightarrow> shell \<Rightarrow> flow \<times> shell" where
  "simple w ws sh =
     (let as = takeWhile (\<lambda>wd. assignment wd \<noteq> None) ws;
          cs = dropWhile (\<lambda>wd. assignment wd \<noteq> None) ws
      in if cs = [] then assign_all w (map (\<lambda>wd. the (assignment wd)) as) (sh\<lparr>status := 0\<rparr>)
         else if as \<noteq> [] then (Unmodelled, sh)
         else (case expand_words w cs sh of
                 (Inl BadSubst, sh') \<Rightarrow>
                   (Discarded, say (Diag BadSubstitution) (sh'\<lparr>status := 1\<rparr>))
               | (Inl NoModel, sh') \<Rightarrow> (Unmodelled, sh')
               | (Inr fs, sh') \<Rightarrow> dispatch w fs sh'))"

fun exec :: "world \<Rightarrow> cmd \<Rightarrow> shell \<Rightarrow> flow \<times> shell"
  and exec_list :: "world \<Rightarrow> cmd list \<Rightarrow> shell \<Rightarrow> flow \<times> shell" where
  "exec w (Simple ws) sh = simple w ws sh"
| "exec w (OrElse l r) sh =
     (case exec w l sh of
        (Go, sh') \<Rightarrow> if status sh' = 0 then (Go, sh') else exec w r sh'
      | other \<Rightarrow> other)"
| "exec w (If c t e) sh =
     (case exec_list w c sh of
        (Go, sh') \<Rightarrow>
          if status sh' = 0 then exec_list w t sh'
          else if e = [] then (Go, sh'\<lparr>status := 0\<rparr>)
          else exec_list w e sh'
      | other \<Rightarrow> other)"
| "exec_list w [] sh = (Go, sh)"
| "exec_list w (c # cs) sh =
     (case exec w c sh of
        (Go, sh') \<Rightarrow> exec_list w cs sh'
      | other \<Rightarrow> other)"

subsection \<open>Running a script\<close>

text \<open>
  The shell runs the complete lines in order. After an expansion error it goes on with
  the next line; a \<^verbatim>\<open>return\<close> in a sourced file ends the run. When it gets to a syntax
  error it reports it and stops with status 2, with nothing of the faulty command run.
\<close>

fun run_units :: "world \<Rightarrow> cmd list list \<Rightarrow> shell \<Rightarrow> flow \<times> shell" where
  "run_units w [] sh = (Go, sh)"
| "run_units w (u # us) sh =
     (case exec_list w u sh of
        (Go, sh') \<Rightarrow> run_units w us sh'
      | (Discarded, sh') \<Rightarrow> run_units w us sh'
      | other \<Rightarrow> other)"

datatype ending = Finished | ReturnedEarly | SyntaxAbort syntax_error | OutsideModel

definition run_script :: "world \<Rightarrow> string \<Rightarrow> shell \<Rightarrow> ending \<times> shell" where
  "run_script w txt sh =
     (case parse_script txt of
        (us, err) \<Rightarrow>
          (case run_units w us sh of
             (Returned, sh') \<Rightarrow> (ReturnedEarly, sh')
           | (Unmodelled, sh') \<Rightarrow> (OutsideModel, sh')
           | (_, sh') \<Rightarrow>
               (case err of
                  None \<Rightarrow> (Finished, sh')
                | Some OutsideFragment \<Rightarrow> (OutsideModel, sh')
                | Some e \<Rightarrow> (SyntaxAbort e, say (Diag SyntaxError) (sh'\<lparr>status := 2\<rparr>)))))"

definition create_worktree :: "world \<Rightarrow> shell \<Rightarrow> ending \<times> shell" where
  "create_worktree w sh = run_script w script_text sh"

section \<open>The commands of the script\<close>

text \<open>
  What the parser makes of the file: the lines it hands over to be run, and the syntax
  error it ends with.
\<close>

definition script_units :: "cmd list list" where
  "script_units = fst (parse_script script_text)"

definition script_error :: "syntax_error option" where
  "script_error = snd (parse_script script_text)"

text \<open>Lines 2 to 5 alone, and the command they are in the file: the first one.\<close>

definition guard_text :: string where
  "guard_text = join_lines (take 4 (drop 1 script_lines))"

definition guard_clause :: cmd where
  "guard_clause = (case script_units of (c # _) # _ \<Rightarrow> c | _ \<Rightarrow> Simple [])"

subsection \<open>Observing a run\<close>

definition new_events :: "shell \<Rightarrow> shell \<Rightarrow> event list" where
  "new_events sh sh' = drop (length (trace sh)) (trace sh')"

definition script_events :: "world \<Rightarrow> shell \<Rightarrow> event list" where
  "script_events w sh = new_events sh (snd (create_worktree w sh))"

text \<open>The steps of a run: the programs started and the directory changes attempted.\<close>

fun is_step :: "event \<Rightarrow> bool" where
  "is_step (Run argv) = True"
| "is_step (Cd t) = True"
| "is_step e = False"

definition steps :: "event list \<Rightarrow> event list" where
  "steps es = filter is_step es"


fun runs_of :: "string \<Rightarrow> event list \<Rightarrow> nat" where
  "runs_of n [] = 0"
| "runs_of n (Run argv # es) = (if take 1 argv = [n] then 1 else 0) + runs_of n es"
| "runs_of n (e # es) = runs_of n es"

text \<open>
  The value of a variable, the first argument, and the argument vector that line 9
  builds for git from the variable \<^verbatim>\<open>WORKTREE_PATH\<close>.
\<close>

definition var :: "shell \<Rightarrow> string \<Rightarrow> string" where
  "var sh n = (case vars sh n of None \<Rightarrow> [] | Some v \<Rightarrow> v)"

definition first_param :: "shell \<Rightarrow> string" where
  "first_param sh = (case params sh of [] \<Rightarrow> [] | a # _ \<Rightarrow> a)"

definition git_argv :: "shell \<Rightarrow> string list" where
  "git_argv sh = [''git'', ''worktree'', ''add'', var sh ''WORKTREE_PATH'']"

subsection \<open>The text of the file, token by token\<close>

text \<open>
  The tokens of the whole file, of one line of it and of a range of lines (lines count
  from 1), and the commands whose output the words of a token list capture with
  \<^verbatim>\<open>$(...)\<close>. These read the text only; nothing is run.
\<close>

definition script_tokens :: "token list" where
  "script_tokens = (case tokens script_text of Some ts \<Rightarrow> ts | None \<Rightarrow> [])"


definition lines_tokens :: "nat \<Rightarrow> nat \<Rightarrow> token list" where
  "lines_tokens a b =
     (case tokens (join_lines (take (Suc b - a) (drop (a - 1) script_lines))) of
        Some ts \<Rightarrow> ts
      | None \<Rightarrow> [])"

fun atom_subs :: "atom \<Rightarrow> string list" where
  "atom_subs (Sub b) = [b]"
| "atom_subs a = []"

fun piece_subs :: "piece \<Rightarrow> string list" where
  "piece_subs (Bare a) = atom_subs a"
| "piece_subs (Quoted as) = concat (map atom_subs as)"

fun token_subs :: "token \<Rightarrow> string list" where
  "token_subs (TWord wd) = concat (map piece_subs wd)"
| "token_subs t = []"

definition substitutions :: "token list \<Rightarrow> string list" where
  "substitutions ts = concat (map token_subs ts)"

text \<open>Whether a run ended at a syntax error.\<close>

fun is_syntax_abort :: "ending \<Rightarrow> bool" where
  "is_syntax_abort (SyntaxAbort e) = True"
| "is_syntax_abort e = False"

text \<open>Line 2 with the missing space put in, for comparison: the file with that line.\<close>

definition spaced_lines :: "string list" where
  "spaced_lines = script_lines[1 := ''if [ $# -eq 0 ]; then'']"

subsection \<open>Sample worlds and invocations\<close>

text \<open>
  A world where every program succeeds and every directory can be entered; one where
  git fails (status 128, as \<^verbatim>\<open>git worktree add\<close> does on a fatal error); and one where
  no directory can be entered.
\<close>

definition world_ok :: world where
  "world_ok = \<lparr>program = (\<lambda>tr argv. (0, [])), chdir = (\<lambda>tr c t. Some (c @ ''/'' @ t))\<rparr>"



text \<open>
  An invocation from the directory \<^verbatim>\<open>/repo\<close> with no variable set: sourced (\<open>True\<close>) or
  run as a program (\<open>False\<close>), with the given arguments.
\<close>

definition invocation :: "bool \<Rightarrow> string list \<Rightarrow> shell" where
  "invocation src as =
     \<lparr>vars = Map.empty, params = as, cwd = ''/repo'', sourced = src, status = 0, trace = []\<rparr>"

text \<open>
  A sourced invocation with the argument \<^verbatim>\<open>feature\<close> in a shell where \<^verbatim>\<open>WORKTREE_PATH\<close>
  already holds \<^verbatim>\<open>../feature\<close>.
\<close>

definition invocation_with_path :: shell where
  "invocation_with_path =
     (invocation True [''feature''])\<lparr>vars := [''WORKTREE_PATH'' \<mapsto> ''../feature'']\<rparr>"

section \<open>The landing page\<close>

text \<open>
  \<^verbatim>\<open>src/app/page.tsx\<close>: the component \<^verbatim>\<open>Home\<close> returns one JSX expression. The tree below is
  that expression as written, with the text between the tags kept as it stands in the
  file, line breaks and indentation included.
\<close>

datatype jsx = Tag string "(string \<times> string) list" "jsx list" | Txt string

definition Home_jsx :: jsx where
  "Home_jsx =
     Tag ''main'' [(''className'', ''flex min-h-screen flex-col items-center justify-center p-24'')]
       [Txt (newline # replicate 6 (CHR '' '')),
        Tag ''div'' [(''className'', ''flex flex-col items-center gap-4'')]
          [Txt (newline # replicate 8 (CHR '' '')),
           Tag ''h1'' [(''className'', ''text-4xl font-bold'')] [Txt ''Welcome to NomadHub''],
           Txt (newline # replicate 8 (CHR '' '')),
           Tag ''p'' [(''className'', ''text-muted-foreground'')]
             [Txt (newline # replicate 10 (CHR '' '')
                   @ ''Next.js 15 + TypeScript + Tailwind CSS + shadcn/ui''
                   @ newline # replicate 8 (CHR '' ''))],
           Txt (newline # replicate 6 (CHR '' ''))],
        Txt (newline # replicate 4 (CHR '' ''))]"

text \<open>
  JSX text: the lines are trimmed of the blanks next to a line break, empty lines are
  dropped, the rest is joined by single spaces; text that comes out empty is no child.
\<close>

fun split_lines :: "string \<Rightarrow> string \<Rightarrow> string list" where
  "split_lines acc [] = [acc]"
| "split_lines acc (c # r) =
     (if c = newline then acc # split_lines [] r else split_lines (acc @ [c]) r)"

definition trim_left :: "string \<Rightarrow> string" where
  "trim_left s = dropWhile is_blank s"

definition trim_right :: "string \<Rightarrow> string" where
  "trim_right s = rev (dropWhile is_blank (rev s))"

fun trim_lines :: "bool \<Rightarrow> string list \<Rightarrow> string list" where
  "trim_lines first [] = []"
| "trim_lines first [l] = [if first then l else trim_left l]"
| "trim_lines first (l # ls) =
     (if first then trim_right l else trim_left (trim_right l)) # trim_lines False ls"

definition jsx_text :: "string \<Rightarrow> string" where
  "jsx_text s = join_spaces (filter (\<lambda>l. l \<noteq> []) (trim_lines True (split_lines [] s)))"

fun tidy :: "jsx \<Rightarrow> jsx" where
  "tidy (Txt s) = Txt (jsx_text s)"
| "tidy (Tag n as cs) = Tag n as (filter (\<lambda>c. c \<noteq> Txt []) (map tidy cs))"

text \<open>
  The component as a function of the props it is called with and of the store a
  component could keep state in: it names no parameter and calls no hook, so it hands
  back the store it was given.
\<close>

definition Home :: "'props \<Rightarrow> 'store \<Rightarrow> jsx \<times> 'store" where
  "Home props store = (tidy Home_jsx, store)"

fun texts :: "jsx \<Rightarrow> string list" where
  "texts (Txt s) = [s]"
| "texts (Tag n as cs) = concat (map texts cs)"

fun texts_in :: "string \<Rightarrow> jsx \<Rightarrow> string list" where
  "texts_in tg (Txt s) = []"
| "texts_in tg (Tag n as cs) =
     (if n = tg then concat (map texts cs) else concat (map (texts_in tg) cs))"

section \<open>What the tokeniser reads\<close>

text \<open>
  A word that starts at a character that is no metacharacter takes at least that
  character, so \<open>tokens\<close> goes on exactly after the word.
\<close>

lemma word_pieces_consumes:
  "\<not> is_meta c \<Longrightarrow> word_pieces (c # r) = Some (ps, n) \<Longrightarrow> 0 < n"
  by (auto split: if_splits option.splits prod.splits)

lemma tokens_word_step:
  "\<not> is_meta c \<Longrightarrow> word_pieces (c # r) = Some (ps, n) \<Longrightarrow> drop (n - 1) r = drop n (c # r)"
  using word_pieces_consumes [of c r ps n] by (cases n) simp_all

section \<open>What the parser reads\<close>

lemma parse_script_text:
  "parse_script script_text =
    ([[If [Simple [[Bare (Text ''['')], [Bare Count], [Bare (Text ''-eq'')], [Bare (Text ''0]'')]]]
          [Simple [[Bare (Text ''echo'')], [Quoted [Text ''Error: Worktree name needed!'']]],
           Simple [[Bare (Text ''return'')], [Bare (Text ''1'')]]]
          []],
      [Simple [[Bare (Text ''ARGUMENT=''), Bare (Pos 1)]]],
      [Simple [[Bare (Text ''WORKTREE_PATH=''),
                Quoted [Text ''../'', Param hangul_name, Param ''ARGUMENT'']]]]],
     Some (UnexpectedEOF
       [InElse
         [Simple [[Bare (Text ''git'')], [Bare (Text ''worktree'')], [Bare (Text ''add'')],
                  [Quoted [Param ''WORKTREE_PATH'']]]]
         [Simple [[Bare (Text ''echo'')],
                  [Quoted [Text ''Worktree added successfully: '', Param ''WORKTREE_PATH'']]],
          OrElse (Simple [[Bare (Text ''cd'')], [Quoted [Text ''WORKTREE_PATH'']]])
                 (Simple [[Bare (Text ''return'')], [Bare (Text ''1'')]]),
          Simple [[Bare (Text ''echo'')],
                  [Quoted [Text ''Directory change succeeded: '', Sub ''pwd'']]],
          Simple [[Bare (Text ''claude'')]]]
         [Simple [[Bare (Text ''echo'')], [Quoted [Text ''Worktree creation failed'']]],
          Simple [[Bare (Text ''return'')], [Bare (Text ''1'')]]]]))"
  by code_simp

lemma parse_guard_text:
  "parse_script guard_text =
    ([[If [Simple [[Bare (Text ''['')], [Bare Count], [Bare (Text ''-eq'')], [Bare (Text ''0]'')]]]
          [Simple [[Bare (Text ''echo'')], [Quoted [Text ''Error: Worktree name needed!'']]],
           Simple [[Bare (Text ''return'')], [Bare (Text ''1'')]]]
          []]],
     None)"
  by code_simp

lemma guard_clause_eq:
  "guard_clause =
     If [Simple [[Bare (Text ''['')], [Bare Count], [Bare (Text ''-eq'')], [Bare (Text ''0]'')]]]
        [Simple [[Bare (Text ''echo'')], [Quoted [Text ''Error: Worktree name needed!'']]],
         Simple [[Bare (Text ''return'')], [Bare (Text ''1'')]]]
        []"
  by (simp add: guard_clause_def script_units_def parse_script_text)

section \<open>What each command does\<close>

lemmas sem_defs = simple_def dispatch_def bracket_def test_expr_def echo_def cd_def pwd_def
  return_def external_def assignment_def valid_name_def is_name_start_def is_name_char_def
  is_digit_def is_blank_def may_glob_def glue_def close_fields_def say_def positional_def
  expand_param_def expand_sub_def parse_digits_def digit_of_def other_builtins_def
  builtin_names_def is_high_def hangul_name_def newline_def tab_def case_prod_unfold

lemma var_update [simp]:
  "var (sh\<lparr>status := s\<rparr>) n = var sh n"
  "var (sh\<lparr>trace := t\<rparr>) n = var sh n"
  "var (sh\<lparr>cwd := d\<rparr>) n = var sh n"
  by (simp_all add: var_def)

lemma first_param_update [simp]:
  "first_param (sh\<lparr>status := s\<rparr>) = first_param sh"
  "first_param (sh\<lparr>trace := t\<rparr>) = first_param sh"
  by (simp_all add: first_param_def)

text \<open>Line 2: whatever the number of arguments, the last word given to \<^verbatim>\<open>[\<close> is \<^verbatim>\<open>0]\<close>.\<close>

lemma test_run:
  "simple w [[Bare (Text ''['')], [Bare Count], [Bare (Text ''-eq'')], [Bare (Text ''0]'')]] sh
   = (Go, sh\<lparr>status := 2, trace := trace sh @ [Diag MissingBracket]\<rparr>)"
  by (simp add: sem_defs)

lemma guard_run:
  "exec w guard_clause sh = (Go, sh\<lparr>status := 0, trace := trace sh @ [Diag MissingBracket]\<rparr>)"
  by (simp add: guard_clause_eq test_run)

lemma argument_run:
  "simple w [[Bare (Text ''ARGUMENT=''), Bare (Pos 1)]] sh
   = (Go, sh\<lparr>vars := (vars sh)(''ARGUMENT'' \<mapsto> first_param sh), status := 0\<rparr>)"
  by (cases "params sh") (simp_all add: sem_defs first_param_def)

lemma worktree_path_run:
  "simple w [[Bare (Text ''WORKTREE_PATH=''),
              Quoted [Text ''../'', Param hangul_name, Param ''ARGUMENT'']]] sh
   = (Discarded, sh\<lparr>status := 1, trace := trace sh @ [Diag BadSubstitution]\<rparr>)"
  by (simp add: sem_defs)

lemma create_worktree_run:
  "create_worktree w sh =
     (SyntaxAbort (UnexpectedEOF [InElse
         [Simple [[Bare (Text ''git'')], [Bare (Text ''worktree'')], [Bare (Text ''add'')],
                  [Quoted [Param ''WORKTREE_PATH'']]]]
         [Simple [[Bare (Text ''echo'')],
                  [Quoted [Text ''Worktree added successfully: '', Param ''WORKTREE_PATH'']]],
          OrElse (Simple [[Bare (Text ''cd'')], [Quoted [Text ''WORKTREE_PATH'']]])
                 (Simple [[Bare (Text ''return'')], [Bare (Text ''1'')]]),
          Simple [[Bare (Text ''echo'')],
                  [Quoted [Text ''Directory change succeeded: '', Sub ''pwd'']]],
          Simple [[Bare (Text ''claude'')]]]
         [Simple [[Bare (Text ''echo'')], [Quoted [Text ''Worktree creation failed'']]],
          Simple [[Bare (Text ''return'')], [Bare (Text ''1'')]]]]),
      sh\<lparr>vars := (vars sh)(''ARGUMENT'' \<mapsto> first_param sh), status := 2,
         trace := trace sh @ [Diag MissingBracket, Diag BadSubstitution, Diag SyntaxError]\<rparr>)"
  by (simp add: create_worktree_def run_script_def parse_script_text test_run
        argument_run [unfolded One_nat_def] worktree_path_run say_def)

lemma script_events_eq:
  "script_events w sh = [Diag MissingBracket, Diag BadSubstitution, Diag SyntaxError]"
  by (simp add: script_events_def new_events_def create_worktree_run)


section \<open>What the text of lines 9 to 16 holds\<close>

text \<open>
  Read as tokens, not run: the only command substitution of the file is \<^verbatim>\<open>$(pwd)\<close>, and
  lines 9 to 16, and lines 11, 15 and 16 of them alone, are as follows.
\<close>

lemma file_substitutions:
  "substitutions script_tokens = [''pwd'']"
  by code_simp

lemma lines_9_to_16:
  "lines_tokens 9 16 =
     [TWord [Bare (Text ''if'')], TWord [Bare (Text ''git'')], TWord [Bare (Text ''worktree'')],
      TWord [Bare (Text ''add'')], TWord [Quoted [Param ''WORKTREE_PATH'']], TSemi,
      TWord [Bare (Text ''then'')], TNewline,
      TWord [Bare (Text ''echo'')],
      TWord [Quoted [Text ''Worktree added successfully: '', Param ''WORKTREE_PATH'']], TNewline,
      TWord [Bare (Text ''cd'')], TWord [Quoted [Text ''WORKTREE_PATH'']], TOrOr,
      TWord [Bare (Text ''return'')], TWord [Bare (Text ''1'')], TNewline,
      TWord [Bare (Text ''echo'')],
      TWord [Quoted [Text ''Directory change succeeded: '', Sub ''pwd'']], TNewline,
      TWord [Bare (Text ''claude'')], TNewline,
      TWord [Bare (Text ''else'')], TNewline,
      TWord [Bare (Text ''echo'')], TWord [Quoted [Text ''Worktree creation failed'']], TNewline,
      TWord [Bare (Text ''return'')], TWord [Bare (Text ''1'')]]"
  by code_simp




section \<open>What every run of the file does\<close>

text \<open>
  The run does not depend on the world, starts no program and attempts no change of
  directory; it ends at the syntax error with status 2.
\<close>

lemma run_same_in_every_world:
  "create_worktree w' sh = create_worktree w sh"
  by (simp add: create_worktree_run)

lemma run_ends_at_syntax_error:
  "is_syntax_abort (fst (create_worktree w sh))"
  "status (snd (create_worktree w sh)) = 2"
  "cwd (snd (create_worktree w sh)) = cwd sh"
  by (simp_all add: create_worktree_run)



lemma sample_with_path [simp]:
  "var invocation_with_path ''WORKTREE_PATH'' = ''../feature''"
  "cwd invocation_with_path = ''/repo''"
  by (simp_all add: invocation_with_path_def invocation_def var_def)

text \<open>
  The file with the space put into line 2: the parser ends with the same error, and a
  sourced run with zero arguments writes the message and returns 1 before the shell
  gets to that error.
\<close>

lemma parse_spaced:
  "snd (parse_script (join_lines spaced_lines)) = script_error"
  by code_simp

lemma spaced_run:
  "fst (run_script world_ok (join_lines spaced_lines) (invocation True [])) = ReturnedEarly
   \<and> trace (snd (run_script world_ok (join_lines spaced_lines) (invocation True [])))
       = [Out ''Error: Worktree name needed!'']
   \<and> status (snd (run_script world_ok (join_lines spaced_lines) (invocation True []))) = 1"
  by code_simp

text \<open>The markup of the landing page after the JSX text rules.\<close>

lemma tidy_Home_jsx:
  "tidy Home_jsx =
     Tag ''main'' [(''className'', ''flex min-h-screen flex-col items-center justify-center p-24'')]
       [Tag ''div'' [(''className'', ''flex flex-col items-center gap-4'')]
          [Tag ''h1'' [(''className'', ''text-4xl font-bold'')] [Txt ''Welcome to NomadHub''],
           Tag ''p'' [(''className'', ''text-muted-foreground'')]
             [Txt ''Next.js 15 + TypeScript + Tailwind CSS + shadcn/ui'']]]"
  by code_simp

section \<open>The guard of lines 2 to 5\<close>

text \<open>
  Claim C1. Invoked with zero arguments, the script never writes
  \<^verbatim>\<open>Error: Worktree name needed!\<close>, because the test of line 2 is malformed. Whatever the
  world and whatever the state of the shell that runs the file, sourced or not, that
  line is not among the events of the run, and the diagnostic of \<^verbatim>\<open>[\<close> about its missing
  \<^verbatim>\<open>]\<close> is.
\<close>

theorem guard_message_never_printed:
  "Out ''Error: Worktree name needed!'' \<notin> set (script_events w (sh\<lparr>params := []\<rparr>))
   \<and> Diag MissingBracket \<in> set (script_events w (sh\<lparr>params := []\<rparr>))"
  by (simp add: script_events_eq)

theorem guard_message_never_printed_witness:
  "Out ''Error: Worktree name needed!'' \<notin> set (script_events world_ok (invocation True []))
   \<and> Diag MissingBracket \<in> set (script_events world_ok (invocation True []))"
  using guard_message_never_printed [of world_ok "invocation True []"]
  by (simp add: invocation_def)

text \<open>
  Against claim C2 as it is worded (the missing space makes the script fail at parse
  time, when invoked with zero arguments). Lines 2 to 5 parse, without error, to one
  complete command, the guard. The syntax error the parser does end with is the same
  with the space put in. In a run with zero arguments the first event is the
  diagnostic that the command \<^verbatim>\<open>[\<close> writes when it runs, and line 6 runs after it and sets
  \<^verbatim>\<open>ARGUMENT\<close> to the empty string.
\<close>

theorem guard_not_rejected_by_parser:
  "parse_script guard_text = ([[guard_clause]], None)
   \<and> snd (parse_script (join_lines spaced_lines)) = script_error
   \<and> take 1 (script_events world_ok (invocation True [])) = [Diag MissingBracket]
   \<and> vars (snd (create_worktree world_ok (invocation True []))) ''ARGUMENT'' = Some []"
  by (simp add: parse_guard_text parse_spaced guard_clause_eq script_events_eq
        create_worktree_run first_param_def invocation_def)

text \<open>
  Claim C2, amended. The missing space makes the test fail when it runs, not when it is
  parsed. The guard is one of the commands the parser hands over to be run; with zero
  arguments \<^verbatim>\<open>[\<close> is given the words \<^verbatim>\<open>0\<close>, \<^verbatim>\<open>-eq\<close>, \<^verbatim>\<open>0]\<close>, reports the missing \<^verbatim>\<open>]\<close> and ends
  with status 2; the guard then skips its body, writes no message and lets the next
  command run.
\<close>

theorem guard_fails_at_run_time:
  "guard_clause \<in> set (concat script_units)
   \<and> bracket [dec 0, ''-eq'', ''0]''] sh = (Go, say (Diag MissingBracket) (sh\<lparr>status := 2\<rparr>))
   \<and> exec w guard_clause (sh\<lparr>params := []\<rparr>)
       = (Go, sh\<lparr>params := [], status := 0, trace := trace sh @ [Diag MissingBracket]\<rparr>)"
  by (simp add: test_run guard_clause_eq script_units_def parse_script_text bracket_def)

theorem guard_fails_at_run_time_witness:
  "guard_clause \<in> set (concat script_units)
   \<and> bracket [''0'', ''-eq'', ''0]''] (invocation True [])
       = (Go, say (Diag MissingBracket) ((invocation True [])\<lparr>status := 2\<rparr>))
   \<and> exec world_ok guard_clause (invocation True [])
       = (Go, (invocation True [])\<lparr>trace := [Diag MissingBracket]\<rparr>)"
  using guard_fails_at_run_time [of "invocation True []" world_ok]
  by (simp add: invocation_def dec.simps)

text \<open>
  Claim C8, at the invocation with zero arguments. The run falls through the guard and
  sets \<^verbatim>\<open>ARGUMENT\<close> to the empty string, as the claim says, but it does not get to
  \<^verbatim>\<open>git worktree add\<close>: line 7 fails with a bad substitution, and the conditional that
  starts on line 9 is never closed, so the shell reports a syntax error at the end of
  the file and stops with status 2. No program is started and no directory is changed.
\<close>

theorem zero_arguments_never_reach_git:
  "fst (create_worktree world_ok (invocation True [])) = SyntaxAbort (UnexpectedEOF [InElse
         [Simple [[Bare (Text ''git'')], [Bare (Text ''worktree'')], [Bare (Text ''add'')],
                  [Quoted [Param ''WORKTREE_PATH'']]]]
         [Simple [[Bare (Text ''echo'')],
                  [Quoted [Text ''Worktree added successfully: '', Param ''WORKTREE_PATH'']]],
          OrElse (Simple [[Bare (Text ''cd'')], [Quoted [Text ''WORKTREE_PATH'']]])
                 (Simple [[Bare (Text ''return'')], [Bare (Text ''1'')]]),
          Simple [[Bare (Text ''echo'')],
                  [Quoted [Text ''Directory change succeeded: '', Sub ''pwd'']]],
          Simple [[Bare (Text ''claude'')]]]
         [Simple [[Bare (Text ''echo'')], [Quoted [Text ''Worktree creation failed'']]],
          Simple [[Bare (Text ''return'')], [Bare (Text ''1'')]]]])
   \<and> script_events world_ok (invocation True [])
       = [Diag MissingBracket, Diag BadSubstitution, Diag SyntaxError]
   \<and> steps (script_events world_ok (invocation True [])) = []
   \<and> vars (snd (create_worktree world_ok (invocation True []))) ''ARGUMENT'' = Some []
   \<and> status (snd (create_worktree world_ok (invocation True []))) = 2"
  by (simp add: script_events_eq create_worktree_run first_param_def invocation_def steps_def)

section \<open>The worktree path of lines 6 and 7\<close>

text \<open>
  Claim C9, at the invocation with the one argument \<^verbatim>\<open>feature\<close> and no variable set. Line 6
  sets \<^verbatim>\<open>ARGUMENT\<close> to \<^verbatim>\<open>feature\<close>. Line 7 does not set \<^verbatim>\<open>WORKTREE_PATH\<close> to \<^verbatim>\<open>../feature\<close>: the
  name between its braces is not a name bash accepts, the expansion ends with a bad
  substitution and the assignment is dropped, so the variable stays unset and the
  argument vector line 9 would build from it has the empty string as its path. No
  program is started in the run.
\<close>

theorem worktree_path_not_assigned:
  "vars (snd (create_worktree world_ok (invocation True [''feature'']))) ''ARGUMENT''
     = Some ''feature''
   \<and> vars (snd (create_worktree world_ok (invocation True [''feature'']))) ''WORKTREE_PATH''
     = None
   \<and> Diag BadSubstitution \<in> set (script_events world_ok (invocation True [''feature'']))
   \<and> git_argv (snd (create_worktree world_ok (invocation True [''feature''])))
     = [''git'', ''worktree'', ''add'', []]
   \<and> steps (script_events world_ok (invocation True [''feature''])) = []"
  by (simp add: script_events_eq create_worktree_run first_param_def invocation_def steps_def
        git_argv_def var_def)

section \<open>Lines 9 to 16 are never run\<close>


text \<open>
  Claim C4, at the same invocation, where all three steps would succeed. The run
  performs none of them: its events are the three diagnostics of the shell, and it ends
  at the syntax error with status 2.
\<close>

theorem no_step_is_performed:
  "steps (script_events world_ok invocation_with_path) = []
   \<and> steps (script_events world_ok invocation_with_path)
       \<noteq> [Run [''git'', ''worktree'', ''add'', ''../feature''], Cd ''WORKTREE_PATH'',
          Run [''claude'']]
   \<and> script_events world_ok invocation_with_path
       = [Diag MissingBracket, Diag BadSubstitution, Diag SyntaxError]
   \<and> is_syntax_abort (fst (create_worktree world_ok invocation_with_path))
   \<and> status (snd (create_worktree world_ok invocation_with_path)) = 2"
  by (simp add: script_events_eq steps_def run_ends_at_syntax_error)


text \<open>
  Claim C6. The script reads nothing of what git and claude write and does not recover
  from their failure beyond one test of an exit status. In the text: the only command
  substitution of the file is that of the builtin \<^verbatim>\<open>pwd\<close>, and lines 9 to 16 are, token
  for token, these: git stands bare as the condition of the \<^verbatim>\<open>if\<close>, which is the one test
  of its exit status; claude stands alone on its line, its exit status tested by
  nothing; and after the \<^verbatim>\<open>else\<close> come one \<^verbatim>\<open>echo\<close> and one \<^verbatim>\<open>return\<close>. In the runs: the run
  is the same in every world, whatever the programs would write or return; its events
  are the three diagnostics of the shell; neither git nor claude is started, let alone
  started again.
\<close>

theorem tools_not_parsed_nor_retried:
  "create_worktree w' sh = create_worktree w sh
   \<and> substitutions script_tokens = [''pwd'']
   \<and> lines_tokens 9 16 =
     [TWord [Bare (Text ''if'')], TWord [Bare (Text ''git'')], TWord [Bare (Text ''worktree'')],
      TWord [Bare (Text ''add'')], TWord [Quoted [Param ''WORKTREE_PATH'']], TSemi,
      TWord [Bare (Text ''then'')], TNewline,
      TWord [Bare (Text ''echo'')],
      TWord [Quoted [Text ''Worktree added successfully: '', Param ''WORKTREE_PATH'']], TNewline,
      TWord [Bare (Text ''cd'')], TWord [Quoted [Text ''WORKTREE_PATH'']], TOrOr,
      TWord [Bare (Text ''return'')], TWord [Bare (Text ''1'')], TNewline,
      TWord [Bare (Text ''echo'')],
      TWord [Quoted [Text ''Directory change succeeded: '', Sub ''pwd'']], TNewline,
      TWord [Bare (Text ''claude'')], TNewline,
      TWord [Bare (Text ''else'')], TNewline,
      TWord [Bare (Text ''echo'')], TWord [Quoted [Text ''Worktree creation failed'']], TNewline,
      TWord [Bare (Text ''return'')], TWord [Bare (Text ''1'')]]
   \<and> script_events w sh = [Diag MissingBracket, Diag BadSubstitution, Diag SyntaxError]
   \<and> runs_of ''git'' (script_events w sh) = 0
   \<and> runs_of ''claude'' (script_events w sh) = 0"
  using run_same_in_every_world [of w' sh w]
  by (simp add: file_substitutions lines_9_to_16 script_events_eq)



section \<open>The landing page is static\<close>

text \<open>
  Claim C7. \<^verbatim>\<open>Home\<close> is a static render: whatever props it is called with and whatever the
  store holds, it returns the same markup and hands the store back unchanged; the
  markup has the headline \<^verbatim>\<open>Welcome to NomadHub\<close> in its \<^verbatim>\<open>h1\<close> and the subtitle
  \<^verbatim>\<open>Next.js 15 + TypeScript + Tailwind CSS + shadcn/ui\<close> in its \<^verbatim>\<open>p\<close>, and no other text.
\<close>

theorem Home_is_static:
  "fst (Home props store) = fst (Home props' store')
   \<and> snd (Home props store) = store
   \<and> texts_in ''h1'' (fst (Home props store)) = [''Welcome to NomadHub'']
   \<and> texts_in ''p'' (fst (Home props store))
       = [''Next.js 15 + TypeScript + Tailwind CSS + shadcn/ui'']
   \<and> texts (fst (Home props store))
       = [''Welcome to NomadHub'', ''Next.js 15 + TypeScript + Tailwind CSS + shadcn/ui'']"
  by (simp add: Home_def tidy_Home_jsx)

end
